theory Spec2Isabelle
  imports Main
begin

section \<open>Text, characters and the pattern language\<close>

text \<open>
  Both hooks decide by \<^verbatim>\<open>re.search(pattern, text)\<close>. A text is a \<open>string\<close>. Every
  pattern of the two hooks is ASCII, and the character tests below are those of Python's
  \<^verbatim>\<open>re\<close> on ASCII text. On other text \<^verbatim>\<open>re\<close> is Unicode-aware (more word characters,
  white space, digits and letter cases than the ASCII ones); the model does not follow it
  there, so a statement that depends on these tests at a text that is not fixed is made
  for ASCII text (\<open>ascii_text\<close>). The text printed on the side channel is the byte string
  written to the stream, so a symbol outside ASCII stands there as its UTF-8 bytes.
\<close>

definition is_digit :: "char \<Rightarrow> bool" where \<comment> \<open>\<^verbatim>\<open>\d\<close> on ASCII text\<close>
  "is_digit c = (let n = (of_char c :: nat) in 48 \<le> n \<and> n \<le> 57)"

definition is_upper :: "char \<Rightarrow> bool" where
  "is_upper c = (let n = (of_char c :: nat) in 65 \<le> n \<and> n \<le> 90)"

definition is_lower :: "char \<Rightarrow> bool" where
  "is_lower c = (let n = (of_char c :: nat) in 97 \<le> n \<and> n \<le> 122)"

definition is_word :: "char \<Rightarrow> bool" where \<comment> \<open>\<^verbatim>\<open>\w\<close> on ASCII text\<close>
  "is_word c = (is_digit c \<or> is_upper c \<or> is_lower c \<or> c = CHR ''_'')"

definition is_space :: "char \<Rightarrow> bool" where \<comment> \<open>\<^verbatim>\<open>\s\<close> on ASCII text\<close>
  "is_space c = (let n = (of_char c :: nat) in (9 \<le> n \<and> n \<le> 13) \<or> (28 \<le> n \<and> n \<le> 32))"

definition to_lower :: "char \<Rightarrow> char" where \<comment> \<open>case folding of ASCII letters\<close>
  "to_lower c = (if is_upper c then char_of (of_char c + (32 :: nat)) else c)"

definition to_upper :: "char \<Rightarrow> char" where
  "to_upper c = (if is_lower c then char_of (of_char c - (32 :: nat)) else c)"



text \<open>
  The patterns of the hooks use literal text, the classes \<^verbatim>\<open>.\<close>, \<^verbatim>\<open>\w\<close>, \<^verbatim>\<open>\s\<close>
  and \<^verbatim>\<open>\d\<close> under \<^verbatim>\<open>+\<close> or \<^verbatim>\<open>*\<close>, the word boundary \<^verbatim>\<open>\b\<close>, the end anchor
  \<^verbatim>\<open>$\<close>, alternation and the negative lookahead \<^verbatim>\<open>(?!...)\<close>.
\<close>

datatype cclass = AnyChar | WordChar | SpaceChar | DigitChar

fun in_class :: "cclass \<Rightarrow> char \<Rightarrow> bool" where
  "in_class AnyChar c = (c \<noteq> CHR 0x0A)"
| "in_class WordChar c = is_word c"
| "in_class SpaceChar c = is_space c"
| "in_class DigitChar c = is_digit c"

datatype regex =
    Lit string
  | Plus cclass
  | Star cclass
  | WordB
  | EndA
  | Seq regex regex
  | Alt regex regex
  | NotAhead regex

fun cat :: "regex list \<Rightarrow> regex" where
  "cat [] = Lit []"
| "cat [r] = r"
| "cat (r # rs) = Seq r (cat rs)"

text \<open>
  A position in the text is the character before it (if any) and the text from it on.
  The matcher is the backtracking one of \<^verbatim>\<open>re\<close>: it takes the rest of the pattern as
  a continuation, tries the alternatives in the order of the pattern (the longest run
  of a repetition first) and gives the position after the first match that the
  continuation accepts.
\<close>

type_synonym pos = "char option \<times> string"
type_synonym cont = "char option \<Rightarrow> string \<Rightarrow> pos option"

definition accept :: cont where
  "accept p xs = Some (p, xs)"

definition chr_eq :: "bool \<Rightarrow> char \<Rightarrow> char \<Rightarrow> bool" where
  "chr_eq ic c x = (if ic then to_lower c = to_lower x else c = x)"

fun lits :: "bool \<Rightarrow> string \<Rightarrow> cont \<Rightarrow> cont" where
  "lits ic [] k p xs = k p xs"
| "lits ic (c # cs) k p [] = None"
| "lits ic (c # cs) k p (x # xs) = (if chr_eq ic c x then lits ic cs k (Some x) xs else None)"

fun greedy :: "(char \<Rightarrow> bool) \<Rightarrow> cont \<Rightarrow> cont" where
  "greedy f k p [] = k p []"
| "greedy f k p (x # xs) =
     (if f x then (case greedy f k (Some x) xs of Some e \<Rightarrow> Some e | None \<Rightarrow> k p (x # xs))
      else k p (x # xs))"

definition word_before :: "char option \<Rightarrow> bool" where
  "word_before p = (case p of None \<Rightarrow> False | Some c \<Rightarrow> is_word c)"

definition word_after :: "string \<Rightarrow> bool" where
  "word_after xs = (case xs of [] \<Rightarrow> False | x # _ \<Rightarrow> is_word x)"

definition at_boundary :: "char option \<Rightarrow> string \<Rightarrow> bool" where
  "at_boundary p xs = (word_before p \<noteq> word_after xs)"

definition at_end :: "string \<Rightarrow> bool" where
  "at_end xs = (xs = [] \<or> xs = [CHR 0x0A])"

fun rx :: "bool \<Rightarrow> regex \<Rightarrow> cont \<Rightarrow> cont" where
  "rx ic (Lit s) k p xs = lits ic s k p xs"
| "rx ic (Plus c) k p xs =
     (case xs of [] \<Rightarrow> None
      | x # xs' \<Rightarrow> if in_class c x then greedy (in_class c) k (Some x) xs' else None)"
| "rx ic (Star c) k p xs = greedy (in_class c) k p xs"
| "rx ic WordB k p xs = (if at_boundary p xs then k p xs else None)"
| "rx ic EndA k p xs = (if at_end xs then k p xs else None)"
| "rx ic (Seq a b) k p xs = rx ic a (\<lambda>p' xs'. rx ic b k p' xs') p xs"
| "rx ic (Alt a b) k p xs =
     (case rx ic a k p xs of Some e \<Rightarrow> Some e | None \<Rightarrow> rx ic b k p xs)"
| "rx ic (NotAhead a) k p xs =
     (case rx ic a accept p xs of Some e \<Rightarrow> None | None \<Rightarrow> k p xs)"

text \<open>\<^verbatim>\<open>re.search\<close> tries every start position from the left.\<close>

fun scan :: "bool \<Rightarrow> regex \<Rightarrow> char option \<Rightarrow> string \<Rightarrow> pos option" where
  "scan ic r p [] = rx ic r accept p []"
| "scan ic r p (x # xs) =
     (case rx ic r accept p (x # xs) of Some e \<Rightarrow> Some e | None \<Rightarrow> scan ic r (Some x) xs)"

definition re_search :: "bool \<Rightarrow> regex \<Rightarrow> string \<Rightarrow> bool" where
  "re_search ic r s = (scan ic r None s \<noteq> None)"

section \<open>The command guard\<close>

subsection \<open>Pattern catalogue\<close>

text \<open>
  \<^verbatim>\<open>BLOCKED_PATTERNS\<close> and \<^verbatim>\<open>ALLOWED_PATTERNS\<close>, in the order of the source. Each entry
  is the syntax tree of the pattern string beside it.
\<close>

definition dev_or_serve :: regex where
  "dev_or_serve = Alt (Lit ''dev'') (Lit ''serve'')"

definition unless_later :: "string \<Rightarrow> regex" where
  "unless_later s = NotAhead (cat [Star AnyChar, Lit s])"

definition not_startapp :: regex where
  "not_startapp = NotAhead (cat [Lit ''startapp'', WordB])"

definition blk_npm :: regex where \<comment> \<open>\<^verbatim>\<open>\bnpm\s+run\s+(dev|serve)\b\<close>\<close>
  "blk_npm = cat [WordB, Lit ''npm'', Plus SpaceChar, Lit ''run'', Plus SpaceChar, dev_or_serve, WordB]"

definition blk_yarn :: regex where \<comment> \<open>\<^verbatim>\<open>\byarn\s+(dev|serve)\b\<close>\<close>
  "blk_yarn = cat [WordB, Lit ''yarn'', Plus SpaceChar, dev_or_serve, WordB]"

definition blk_pnpm :: regex where \<comment> \<open>\<^verbatim>\<open>\bpnpm\s+(dev|serve)\b\<close>\<close>
  "blk_pnpm = cat [WordB, Lit ''pnpm'', Plus SpaceChar, dev_or_serve, WordB]"

definition blk_vite :: regex where \<comment> \<open>\<^verbatim>\<open>\bvite\b(?!.*build)\<close>\<close>
  "blk_vite = cat [WordB, Lit ''vite'', WordB, unless_later ''build'']"

definition blk_py_runserver :: regex where \<comment> \<open>\<^verbatim>\<open>\bpython\s+manage\.py\s+runserver\b\<close>\<close>
  "blk_py_runserver =
     cat [WordB, Lit ''python'', Plus SpaceChar, Lit ''manage.py'', Plus SpaceChar, Lit ''runserver'', WordB]"

definition blk_sh_runserver :: regex where \<comment> \<open>\<^verbatim>\<open>\b\.\/manage\.py\s+runserver\b\<close>\<close>
  "blk_sh_runserver = cat [WordB, Lit ''./manage.py'', Plus SpaceChar, Lit ''runserver'', WordB]"

definition blk_py_manage :: regex where \<comment> \<open>\<^verbatim>\<open>\bpython\s+manage\.py\s+(?!startapp\b)\w+\<close>\<close>
  "blk_py_manage =
     cat [WordB, Lit ''python'', Plus SpaceChar, Lit ''manage.py'', Plus SpaceChar, not_startapp, Plus WordChar]"

definition blk_sh_manage :: regex where \<comment> \<open>\<^verbatim>\<open>\b\.\/manage\.py\s+(?!startapp\b)\w+\<close>\<close>
  "blk_sh_manage = cat [WordB, Lit ''./manage.py'', Plus SpaceChar, not_startapp, Plus WordChar]"

definition blk_uvicorn :: regex where \<comment> \<open>\<^verbatim>\<open>\buvicorn\b(?!.*--help)\<close>\<close>
  "blk_uvicorn = cat [WordB, Lit ''uvicorn'', WordB, unless_later ''--help'']"

definition blk_gunicorn :: regex where \<comment> \<open>\<^verbatim>\<open>\bgunicorn\b(?!.*--help)\<close>\<close>
  "blk_gunicorn = cat [WordB, Lit ''gunicorn'', WordB, unless_later ''--help'']"

definition blk_daphne :: regex where \<comment> \<open>\<^verbatim>\<open>\bdaphne\b(?!.*--help)\<close>\<close>
  "blk_daphne = cat [WordB, Lit ''daphne'', WordB, unless_later ''--help'']"

definition blk_celery :: regex where \<comment> \<open>\<^verbatim>\<open>\bcelery\s+-A\s+\w+\s+worker\b\<close>\<close>
  "blk_celery =
     cat [WordB, Lit ''celery'', Plus SpaceChar, Lit ''-A'', Plus SpaceChar, Plus WordChar, Plus SpaceChar,
          Lit ''worker'', WordB]"

definition BLOCKED_PATTERNS :: "regex list" where
  "BLOCKED_PATTERNS =
     [blk_npm, blk_yarn, blk_pnpm, blk_vite,
      blk_py_runserver, blk_sh_runserver,
      blk_py_manage, blk_sh_manage,
      blk_uvicorn, blk_gunicorn, blk_daphne,
      blk_celery]"

definition alw_npm_build :: regex where \<comment> \<open>\<^verbatim>\<open>\bnpm\s+run\s+build\b\<close>\<close>
  "alw_npm_build = cat [WordB, Lit ''npm'', Plus SpaceChar, Lit ''run'', Plus SpaceChar, Lit ''build'', WordB]"

definition alw_npm_test :: regex where \<comment> \<open>\<^verbatim>\<open>\bnpm\s+run\s+test\b\<close>\<close>
  "alw_npm_test = cat [WordB, Lit ''npm'', Plus SpaceChar, Lit ''run'', Plus SpaceChar, Lit ''test'', WordB]"

definition alw_yarn_build :: regex where \<comment> \<open>\<^verbatim>\<open>\byarn\s+build\b\<close>\<close>
  "alw_yarn_build = cat [WordB, Lit ''yarn'', Plus SpaceChar, Lit ''build'', WordB]"

definition alw_vite_build :: regex where \<comment> \<open>\<^verbatim>\<open>\bvite\s+build\b\<close>\<close>
  "alw_vite_build = cat [WordB, Lit ''vite'', Plus SpaceChar, Lit ''build'', WordB]"

definition alw_py_startapp :: regex where \<comment> \<open>\<^verbatim>\<open>\bpython\s+manage\.py\s+startapp\b\<close>\<close>
  "alw_py_startapp =
     cat [WordB, Lit ''python'', Plus SpaceChar, Lit ''manage.py'', Plus SpaceChar, Lit ''startapp'', WordB]"

definition alw_sh_startapp :: regex where \<comment> \<open>\<^verbatim>\<open>\b\.\/manage\.py\s+startapp\b\<close>\<close>
  "alw_sh_startapp = cat [WordB, Lit ''./manage.py'', Plus SpaceChar, Lit ''startapp'', WordB]"

definition alw_docker_compose :: regex where \<comment> \<open>\<^verbatim>\<open>\bdocker\s+compose\b\<close>\<close>
  "alw_docker_compose = cat [WordB, Lit ''docker'', Plus SpaceChar, Lit ''compose'', WordB]"

definition alw_docker_compose_v1 :: regex where \<comment> \<open>\<^verbatim>\<open>\bdocker-compose\b\<close>\<close>
  "alw_docker_compose_v1 = cat [WordB, Lit ''docker-compose'', WordB]"

definition alw_docker :: regex where \<comment> \<open>\<^verbatim>\<open>\bdocker\s+\<close>\<close>
  "alw_docker = cat [WordB, Lit ''docker'', Plus SpaceChar]"

definition alw_npm_install :: regex where \<comment> \<open>\<^verbatim>\<open>\bnpm\s+(install|ci|update)\b\<close>\<close>
  "alw_npm_install =
     cat [WordB, Lit ''npm'', Plus SpaceChar, Alt (Lit ''install'') (Alt (Lit ''ci'') (Lit ''update'')), WordB]"

definition alw_pip_install :: regex where \<comment> \<open>\<^verbatim>\<open>\bpip\s+install\b\<close>\<close>
  "alw_pip_install = cat [WordB, Lit ''pip'', Plus SpaceChar, Lit ''install'', WordB]"

definition ALLOWED_PATTERNS :: "regex list" where
  "ALLOWED_PATTERNS =
     [alw_npm_build, alw_npm_test, alw_yarn_build, alw_vite_build,
      alw_py_startapp, alw_sh_startapp,
      alw_docker_compose, alw_docker_compose_v1, alw_docker,
      alw_npm_install, alw_pip_install]"

subsection \<open>Help messages\<close>

definition cross_mark :: string where \<comment> \<open>U+274C\<close>
  "cross_mark = [CHR 0xE2, CHR 0x9D, CHR 0x8C]"

definition check_mark :: string where \<comment> \<open>U+2705\<close>
  "check_mark = [CHR 0xE2, CHR 0x9C, CHR 0x85]"

definition warning_sign :: string where \<comment> \<open>U+26A0 U+FE0F\<close>
  "warning_sign = [CHR 0xE2, CHR 0x9A, CHR 0xA0, CHR 0xEF, CHR 0xB8, CHR 0x8F]"

definition light_bulb :: string where \<comment> \<open>U+1F4A1\<close>
  "light_bulb = [CHR 0xF0, CHR 0x9F, CHR 0x92, CHR 0xA1]"

definition help_npm_dev :: string where
  \<open>help_npm_dev =
     ''\<newline>'' @
     cross_mark @ '' BLOCKED: npm run dev\<newline>'' @
     ''\<newline>'' @
     ''This command is already running in Docker.\<newline>'' @
     ''\<newline>'' @
     check_mark @ '' Instead use:\<newline>'' @
     ''  - View logs: docker compose logs -f frontend\<newline>'' @
     ''  - Restart: docker compose restart frontend\<newline>'' @
     ''  - Build: docker compose run --rm frontend npm run build\<newline>''\<close>

definition help_django_runserver :: string where
  \<open>help_django_runserver =
     ''\<newline>'' @
     cross_mark @ '' BLOCKED: python manage.py runserver\<newline>'' @
     ''\<newline>'' @
     ''This command is already running in Docker.\<newline>'' @
     ''\<newline>'' @
     check_mark @ '' Instead use:\<newline>'' @
     ''  - View logs: docker compose logs -f django\<newline>'' @
     ''  - Restart: docker compose restart django\<newline>'' @
     ''  - Shell: docker compose run --rm django python manage.py shell\<newline>''\<close>

definition help_django_management :: string where
  \<open>help_django_management =
     ''\<newline>'' @
     cross_mark @ '' BLOCKED: python manage.py <command>\<newline>'' @
     ''\<newline>'' @
     ''Django management commands require the Postgres database running in Docker.\<newline>'' @
     ''\<newline>'' @
     check_mark @ '' Instead use:\<newline>'' @
     ''  - Migrations: docker compose run --rm django python manage.py makemigrations\<newline>'' @
     ''  - Migrate: docker compose run --rm django python manage.py migrate\<newline>'' @
     ''  - Shell: docker compose run --rm django python manage.py shell\<newline>'' @
     ''  - Create superuser: docker compose run --rm django python manage.py createsuperuser\<newline>'' @
     ''  - Custom commands: docker compose run --rm django python manage.py <command>\<newline>'' @
     ''\<newline>'' @
     warning_sign @ ''  EXCEPTION: Only 'startapp' runs locally (for file ownership):\<newline>'' @
     ''  - Create app: python manage.py startapp <app_name>\<newline>''\<close>

definition help_uvicorn :: string where
  \<open>help_uvicorn =
     ''\<newline>'' @
     cross_mark @ '' BLOCKED: uvicorn/gunicorn dev server\<newline>'' @
     ''\<newline>'' @
     ''This service is already running in Docker.\<newline>'' @
     ''\<newline>'' @
     check_mark @ '' Instead use:\<newline>'' @
     ''  - View logs: docker compose logs -f backend\<newline>'' @
     ''  - Restart: docker compose restart backend\<newline>'' @
     ''  - Run commands: docker compose run --rm backend <command>\<newline>''\<close>

definition help_celery_worker :: string where
  \<open>help_celery_worker =
     ''\<newline>'' @
     cross_mark @ '' BLOCKED: celery worker\<newline>'' @
     ''\<newline>'' @
     ''Celery worker is already running in Docker.\<newline>'' @
     ''\<newline>'' @
     check_mark @ '' Instead use:\<newline>'' @
     ''  - View logs: docker compose logs -f celery\<newline>'' @
     ''  - Restart: docker compose restart celery\<newline>'' @
     ''  - Inspect: docker compose exec celery celery -A <app> inspect active\<newline>''\<close>


datatype help_key = npm_dev | django_runserver | django_management | uvicorn | celery_worker

fun HELP_MESSAGES :: "help_key \<Rightarrow> string" where
  "HELP_MESSAGES npm_dev = help_npm_dev"
| "HELP_MESSAGES django_runserver = help_django_runserver"
| "HELP_MESSAGES django_management = help_django_management"
| "HELP_MESSAGES uvicorn = help_uvicorn"
| "HELP_MESSAGES celery_worker = help_celery_worker"

definition fallback_message :: string where
  "fallback_message = ''This command conflicts with Docker services already running.''"

subsection \<open>Message resolver and classifier\<close>

text \<open>
  \<^verbatim>\<open>get_help_message\<close> searches the command again, with five patterns of its own and
  without \<^verbatim>\<open>re.IGNORECASE\<close>.
\<close>

definition help_servers :: regex where \<comment> \<open>\<^verbatim>\<open>\b(uvicorn|gunicorn|daphne)\b\<close>\<close>
  "help_servers = cat [WordB, Alt (Lit ''uvicorn'') (Alt (Lit ''gunicorn'') (Lit ''daphne'')), WordB]"

definition get_help_message :: "string \<Rightarrow> string" where
  "get_help_message command =
     (if re_search False blk_npm command then HELP_MESSAGES npm_dev
      else if re_search False blk_py_runserver command then HELP_MESSAGES django_runserver
      else if re_search False blk_py_manage command then HELP_MESSAGES django_management
      else if re_search False help_servers command then HELP_MESSAGES uvicorn
      else if re_search False blk_celery command then HELP_MESSAGES celery_worker
      else fallback_message)"

fun any_match :: "regex list \<Rightarrow> string \<Rightarrow> bool" where
  "any_match [] command = False"
| "any_match (pattern # rest) command =
     (if re_search True pattern command then True else any_match rest command)"

definition should_block_command :: "string \<Rightarrow> bool \<times> string" where
  "should_block_command command =
     (if any_match ALLOWED_PATTERNS command then (False, [])
      else if any_match BLOCKED_PATTERNS command then (True, get_help_message command)
      else (False, []))"

subsection \<open>Events and the dispatcher\<close>

text \<open>
  The hook reads one JSON document from standard input. \<^verbatim>\<open>json.load\<close> is library code:
  its result is the input of the model, either the exception it raised or the parsed
  value (numbers are integers here; a mapping is the list of its items). An exception is
  its class name and its message; \<^verbatim>\<open>str(e)\<close> is the message.
\<close>

datatype json =
    JNull
  | JBool bool
  | JInt int
  | JStr string
  | JList "json list"
  | JDict "(string \<times> json) list"

datatype pyexn = PyExn string string

fun str_exn :: "pyexn \<Rightarrow> string" where
  "str_exn (PyExn cls msg) = msg"

fun type_name :: "json \<Rightarrow> string" where
  "type_name JNull = ''NoneType''"
| "type_name (JBool b) = ''bool''"
| "type_name (JInt i) = ''int''"
| "type_name (JStr s) = ''str''"
| "type_name (JList xs) = ''list''"
| "type_name (JDict kvs) = ''dict''"

definition quoted :: "string \<Rightarrow> string" where
  "quoted s = [CHR 0x27] @ s @ [CHR 0x27]"

fun truthy :: "json \<Rightarrow> bool" where
  "truthy JNull = False"
| "truthy (JBool b) = b"
| "truthy (JInt i) = (i \<noteq> 0)"
| "truthy (JStr s) = (s \<noteq> [])"
| "truthy (JList xs) = (xs \<noteq> [])"
| "truthy (JDict kvs) = (kvs \<noteq> [])"

text \<open>\<^verbatim>\<open>d.get(key, default)\<close>: only a mapping has the method.\<close>

fun py_get :: "json \<Rightarrow> string \<Rightarrow> json \<Rightarrow> pyexn + json" where
  "py_get (JDict kvs) key dflt = Inr (case map_of kvs key of None \<Rightarrow> dflt | Some v \<Rightarrow> v)"
| "py_get v key dflt =
     Inl (PyExn ''AttributeError''
            (quoted (type_name v) @ '' object has no attribute '' @ quoted ''get''))"

text \<open>\<^verbatim>\<open>re.search\<close> on a value that is not a string raises.\<close>

definition not_a_string :: "json \<Rightarrow> pyexn" where
  "not_a_string v =
     PyExn ''TypeError'' (''expected string or bytes-like object, got '' @ quoted (type_name v))"

type_synonym outcome = "nat \<times> string list"

text \<open>
  An outcome is the exit status and the texts printed to standard error, one entry for
  each \<^verbatim>\<open>print\<close>. \<^verbatim>\<open>sys.exit\<close> raises \<^verbatim>\<open>SystemExit\<close>, which \<^verbatim>\<open>except Exception\<close> does
  not catch: it ends the body with its status.
\<close>

definition docker_guard_body :: "pyexn + json \<Rightarrow> pyexn + outcome" where
  "docker_guard_body stdin =
     (case stdin of Inl e \<Rightarrow> Inl e
      | Inr hook_input \<Rightarrow>
     (case py_get hook_input ''tool_input'' (JDict []) of Inl e \<Rightarrow> Inl e
      | Inr tool_input \<Rightarrow>
     (case py_get tool_input ''command'' (JStr []) of Inl e \<Rightarrow> Inl e
      | Inr command \<Rightarrow>
        if \<not> truthy command then Inr (0, [])
        else (case command of
                JStr c \<Rightarrow>
                  (case should_block_command c of
                     (should_block, reason) \<Rightarrow>
                       if should_block then Inr (2, [reason]) else Inr (0, []))
              | _ \<Rightarrow> Inl (not_a_string command)))))"

definition docker_guard_main :: "pyexn + json \<Rightarrow> outcome" where
  "docker_guard_main stdin =
     (case docker_guard_body stdin of
        Inl e \<Rightarrow> (0, [''Hook error: '' @ str_exn e])
      | Inr result \<Rightarrow> result)"

section \<open>The TypeScript quality guard\<close>

subsection \<open>Advisory triggers\<close>

definition warning_test_mock :: string where
  \<open>warning_test_mock =
     ''\<newline>'' @
     warning_sign @ ''  TYPESCRIPT QUALITY REMINDER: Writing Test File\<newline>'' @
     ''\<newline>'' @
     ''Common test patterns that cause TypeScript errors:\<newline>'' @
     ''\<newline>'' @
     ''1. Template Refs - Cast to proper HTML type:\<newline>'' @
     ''   '' @ check_mark @ '' (wrapper.find('[data-test="input"]').element as HTMLInputElement).value\<newline>'' @
     ''\<newline>'' @
     ''2. Component Instance Access - Use 'any' in tests:\<newline>'' @
     ''   '' @ check_mark @ '' await (wrapper.vm as any).methodName()\<newline>'' @
     ''\<newline>'' @
     ''3. Mock Composables - Match real return types:\<newline>'' @
     ''   '' @ check_mark @ '' Use computed(() => value) for computed refs, not ref(value)\<newline>'' @
     ''\<newline>'' @
     ''4. Complete Mocks - Include ALL required properties:\<newline>'' @
     ''   '' @ light_bulb @ '' Hover over type in VSCode to see all required fields\<newline>'' @
     ''\<newline>'' @
     ''Reference: frontend/TYPESCRIPT_PATTERNS.md\<newline>''\<close>

definition warning_vue_component :: string where
  \<open>warning_vue_component =
     ''\<newline>'' @
     warning_sign @ ''  TYPESCRIPT QUALITY REMINDER: Writing Vue Component\<newline>'' @
     ''\<newline>'' @
     ''Before writing component code:\<newline>'' @
     ''\<newline>'' @
     ''1. Run type-check to ensure codebase is clean:\<newline>'' @
     ''   docker compose run --rm frontend npm run type-check\<newline>'' @
     ''\<newline>'' @
     ''2. If creating types, ensure unions/enums are COMPLETE:\<newline>'' @
     ''   '' @ check_mark @ '' Add ALL possible values upfront to avoid future errors\<newline>'' @
     ''\<newline>'' @
     ''3. API calls should use generic types:\<newline>'' @
     ''   '' @ check_mark @ '' api.get<User>('/users/me/') not api.get('/users/me/')\<newline>'' @
     ''\<newline>'' @
     ''Reference: /lint-and-format --frontend --categorize --suggest-fixes\<newline>''\<close>

definition warning_typescript_types :: string where
  \<open>warning_typescript_types =
     ''\<newline>'' @
     warning_sign @ ''  TYPESCRIPT QUALITY REMINDER: Writing Type Definitions\<newline>'' @
     ''\<newline>'' @
     ''Type safety checklist:\<newline>'' @
     ''\<newline>'' @
     ''1. Union types - Include ALL possible values now, not later\<newline>'' @
     ''2. Interfaces - Mark optional fields with '?'\<newline>'' @
     ''3. Enums - Add new values as features are created\<newline>'' @
     ''4. null vs undefined - Be consistent (prefer null)\<newline>'' @
     ''\<newline>'' @
     ''Common issue: Adding type values after code uses them\<newline>'' @
     check_mark @ '' Update type FIRST, then use new values in code\<newline>'' @
     ''\<newline>'' @
     ''Reference: frontend/TYPESCRIPT_PATTERNS.md - Pattern 7\<newline>''\<close>

definition warning_composable :: string where
  \<open>warning_composable =
     ''\<newline>'' @
     warning_sign @ ''  TYPESCRIPT QUALITY REMINDER: Writing Composable\<newline>'' @
     ''\<newline>'' @
     ''Composable type safety:\<newline>'' @
     ''\<newline>'' @
     ''1. Computed properties - Return ComputedRef<T>, not Ref<T>\<newline>'' @
     ''2. Refs - Use Ref<T> for mutable state\<newline>'' @
     ''3. Return types - Explicitly type the return object\<newline>'' @
     ''4. Generic types - Use <T> for reusable composables\<newline>'' @
     ''\<newline>'' @
     ''Common issue: Mixing ref() and computed() incorrectly\<newline>'' @
     check_mark @ '' If logic computes a value, use computed(), not ref()\<newline>'' @
     ''\<newline>'' @
     ''Reference: frontend/TYPESCRIPT_PATTERNS.md - Pattern 6\<newline>''\<close>


definition trg_test_mock :: regex where \<comment> \<open>\<^verbatim>\<open>\.spec\.ts|\.test\.ts\<close>\<close>
  "trg_test_mock = Alt (Lit ''.spec.ts'') (Lit ''.test.ts'')"

definition trg_vue_component :: regex where \<comment> \<open>\<^verbatim>\<open>\.vue$\<close>\<close>
  "trg_vue_component = cat [Lit ''.vue'', EndA]"

definition trg_typescript_types :: regex where \<comment> \<open>\<^verbatim>\<open>\.types\.ts|types/.*\.ts\<close>\<close>
  "trg_typescript_types = Alt (Lit ''.types.ts'') (cat [Lit ''types/'', Star AnyChar, Lit ''.ts''])"

definition trg_composable :: regex where \<comment> \<open>\<^verbatim>\<open>composables/.*\.ts\<close>\<close>
  "trg_composable = cat [Lit ''composables/'', Star AnyChar, Lit ''.ts'']"

text \<open>\<^verbatim>\<open>PATTERN_WARNINGS\<close>: the items of the dictionary in insertion order.\<close>

definition PATTERN_WARNINGS :: "(string \<times> regex \<times> string) list" where
  "PATTERN_WARNINGS =
     [(''test mock'', trg_test_mock, warning_test_mock),
      (''vue component'', trg_vue_component, warning_vue_component),
      (''typescript types'', trg_typescript_types, warning_typescript_types),
      (''composable'', trg_composable, warning_composable)]"

fun first_warning :: "(string \<times> regex \<times> string) list \<Rightarrow> string \<Rightarrow> string option" where
  "first_warning [] file_path = None"
| "first_warning ((pattern_name, trigger, warning) # rest) file_path =
     (if re_search True trigger file_path then Some warning else first_warning rest file_path)"

definition get_pattern_warning :: "string \<Rightarrow> string option" where
  "get_pattern_warning file_path = first_warning PATTERN_WARNINGS file_path"

subsection \<open>Diagnostic probe\<close>

text \<open>
  The probe looks at the file system and runs a subprocess with a timeout of 30 seconds.
  What it finds is the environment of the model: whether \<^verbatim>\<open>frontend\<close> exists under the
  working directory, and what \<^verbatim>\<open>subprocess.run\<close> gave, the exception it raised (a missing
  program, the expired timeout) or the text of the standard error stream.
\<close>

record probe_env =
  frontend_exists :: "pyexn + bool"
  type_check_stderr :: "pyexn + string"

definition error_marker :: regex where \<comment> \<open>\<^verbatim>\<open>error TS\d+:\<close>\<close>
  "error_marker = cat [Lit ''error TS'', Plus DigitChar, Lit '':'']"

text \<open>
  \<^verbatim>\<open>len(re.findall(...))\<close>: the matches are counted from the left, each search starting
  where the match before it ended. (The marker pattern matches no empty text; for a
  match that consumes nothing the count ends there.)
\<close>

function findall_count :: "regex \<Rightarrow> char option \<Rightarrow> string \<Rightarrow> nat" where
  "findall_count r p xs =
     (case scan False r p xs of
        None \<Rightarrow> 0
      | Some (p', xs') \<Rightarrow>
          if length xs' < length xs then Suc (findall_count r p' xs') else 1)"
  by pat_completeness auto
termination
  by (relation "measure (\<lambda>(r, p, xs). length xs)") auto

text \<open>
  The body of the probe is guarded by a handler of its own, which turns every exception
  into \<^verbatim>\<open>None\<close>: \<open>probe_body\<close> is the guarded part, with the exception it may raise.
\<close>

definition probe_body :: "probe_env \<Rightarrow> pyexn + nat option" where
  "probe_body env =
     (case frontend_exists env of
        Inl e \<Rightarrow> Inl e
      | Inr exists \<Rightarrow>
          if \<not> exists then Inr None
          else (case type_check_stderr env of
                  Inl e \<Rightarrow> Inl e
                | Inr stderr \<Rightarrow> Inr (Some (findall_count error_marker None stderr))))"

definition check_typescript_error_count :: "probe_env \<Rightarrow> nat option" where
  "check_typescript_error_count env =
     (case probe_body env of Inl e \<Rightarrow> None | Inr error_count \<Rightarrow> error_count)"

subsection \<open>Dispatcher\<close>

definition starts_with :: "string \<Rightarrow> string \<Rightarrow> bool" where
  "starts_with needle s = (take (length needle) s = needle)"

fun contains :: "string \<Rightarrow> string \<Rightarrow> bool" where
  "contains needle [] = (needle = [])"
| "contains needle (x # xs) = (starts_with needle (x # xs) \<or> contains needle xs)"

text \<open>
  \<^verbatim>\<open>needle in v\<close>: a substring test on a string, membership in a list, a key test on a
  mapping, and a \<^verbatim>\<open>TypeError\<close> on the other values.
\<close>

fun py_in :: "string \<Rightarrow> json \<Rightarrow> pyexn + bool" where
  "py_in needle (JStr s) = Inr (contains needle s)"
| "py_in needle (JList xs) = Inr (JStr needle \<in> set xs)"
| "py_in needle (JDict kvs) = Inr (needle \<in> set (map fst kvs))"
| "py_in needle v =
     Inl (PyExn ''TypeError'' (''argument of type '' @ quoted (type_name v) @ '' is not iterable''))"

definition in_frontend_src :: "json \<Rightarrow> pyexn + bool" where
  "in_frontend_src file_path =
     (case py_in ''frontend/src'' file_path of
        Inl e \<Rightarrow> Inl e
      | Inr found \<Rightarrow>
          if found then Inr True else py_in (''frontend'' @ [CHR 0x5C] @ ''src'') file_path)"

function str_nat :: "nat \<Rightarrow> string" where
  "str_nat n =
     (if n < 10 then [char_of (48 + n)] else str_nat (n div 10) @ [char_of (48 + n mod 10)])"
  by pat_completeness auto
termination
  by (relation "measure id") auto

definition enrichment :: "nat \<Rightarrow> string" where
  "enrichment error_count =
     ''\<newline>'' @ warning_sign @ ''  CURRENT TYPESCRIPT ERRORS: '' @ str_nat error_count @ ''\<newline>'' @
     ''   Consider fixing existing errors before adding new code.\<newline>'' @
     ''   Run: /lint-and-format --frontend --categorize\<newline>''"

definition advise :: "probe_env \<Rightarrow> string \<Rightarrow> string" where
  "advise env warning =
     (case check_typescript_error_count env of
        None \<Rightarrow> warning
      | Some error_count \<Rightarrow>
          if error_count > 0 then warning @ enrichment error_count else warning)"

definition ts_guard_body :: "probe_env \<Rightarrow> pyexn + json \<Rightarrow> pyexn + outcome" where
  "ts_guard_body env stdin =
     (case stdin of Inl e \<Rightarrow> Inl e
      | Inr hook_input \<Rightarrow>
     (case py_get hook_input ''tool_input'' (JDict []) of Inl e \<Rightarrow> Inl e
      | Inr tool_input \<Rightarrow>
     (case py_get hook_input ''tool_name'' (JStr []) of Inl e \<Rightarrow> Inl e
      | Inr tool_name \<Rightarrow>
        if tool_name \<notin> set [JStr ''Write'', JStr ''Edit''] then Inr (0, [])
        else
     (case py_get tool_input ''file_path'' (JStr []) of Inl e \<Rightarrow> Inl e
      | Inr file_path \<Rightarrow>
        if \<not> truthy file_path then Inr (0, [])
        else
     (case in_frontend_src file_path of Inl e \<Rightarrow> Inl e
      | Inr inside \<Rightarrow>
        if \<not> inside then Inr (0, [])
        else (case file_path of
                JStr path \<Rightarrow>
                  (case get_pattern_warning path of
                     None \<Rightarrow> Inr (0, [])
                   | Some warning \<Rightarrow>
                       if warning \<noteq> [] then Inr (0, [advise env warning]) else Inr (0, []))
              | _ \<Rightarrow> Inl (not_a_string file_path)))))))"

definition ts_guard_main :: "probe_env \<Rightarrow> pyexn + json \<Rightarrow> outcome" where
  "ts_guard_main env stdin =
     (case ts_guard_body env stdin of
        Inl e \<Rightarrow> (0, [''TypeScript Quality Guard hook error: '' @ str_exn e])
      | Inr result \<Rightarrow> result)"

section \<open>Events and inputs named in the statements\<close>

text \<open>
  \<open>command_event hook_input command\<close>: the payload of the event is a mapping whose
  \<^verbatim>\<open>command\<close> is the string \<open>command\<close>. \<open>file_event hook_input tool_name path\<close>: the
  tool name of the event is \<open>tool_name\<close> and the \<^verbatim>\<open>file_path\<close> of its payload is the
  string \<open>path\<close>.
\<close>

definition command_event :: "json \<Rightarrow> string \<Rightarrow> bool" where
  "command_event hook_input command =
     (case py_get hook_input ''tool_input'' (JDict []) of
        Inl e \<Rightarrow> False
      | Inr tool_input \<Rightarrow> py_get tool_input ''command'' (JStr []) = Inr (JStr command))"

definition file_event :: "json \<Rightarrow> json \<Rightarrow> string \<Rightarrow> bool" where
  "file_event hook_input tool_name path =
     (py_get hook_input ''tool_name'' (JStr []) = Inr tool_name \<and>
      (case py_get hook_input ''tool_input'' (JDict []) of
         Inl e \<Rightarrow> False
       | Inr tool_input \<Rightarrow> py_get tool_input ''file_path'' (JStr []) = Inr (JStr path)))"

definition inside_frontend_src :: "string \<Rightarrow> bool" where
  "inside_frontend_src path =
     (contains ''frontend/src'' path \<or> contains (''frontend'' @ [CHR 0x5C] @ ''src'') path)"

definition bash_event :: "string \<Rightarrow> json" where
  "bash_event command =
     JDict [(''tool_name'', JStr ''Bash''), (''tool_input'', JDict [(''command'', JStr command)])]"

definition write_event :: "string \<Rightarrow> json" where
  "write_event path =
     JDict [(''tool_name'', JStr ''Write''), (''tool_input'', JDict [(''file_path'', JStr path)])]"

definition no_probe :: probe_env where
  "no_probe = \<lparr>frontend_exists = Inr False, type_check_stderr = Inr []\<rparr>"

definition compose_migrate :: string where
  "compose_migrate = ''docker compose run --rm django python manage.py migrate''"

definition spec_in_composables :: string where
  "spec_in_composables = ''frontend/src/composables/useFoo.spec.ts''"

definition plain_composable :: string where
  "plain_composable = ''frontend/src/composables/useFoo.ts''"

definition trigger_of :: "string \<times> regex \<times> string \<Rightarrow> regex" where
  "trigger_of item = fst (snd item)"

definition warning_of :: "string \<times> regex \<times> string \<Rightarrow> string" where
  "warning_of item = snd (snd item)"

definition write_or_edit :: "json \<Rightarrow> bool" where
  "write_or_edit tool_name = (tool_name = JStr ''Write'' \<or> tool_name = JStr ''Edit'')"

definition foo_vue :: string where
  "foo_vue = ''frontend/src/components/Foo.vue''"

definition probe_timeout :: probe_env where
  "probe_timeout =
     \<lparr>frontend_exists = Inr True,
      type_check_stderr = Inl (PyExn ''TimeoutExpired'' ''Command timed out after 30 seconds'')\<rparr>"

definition probe_no_docker :: probe_env where
  "probe_no_docker =
     \<lparr>frontend_exists = Inr True,
      type_check_stderr =
        Inl (PyExn ''FileNotFoundError'' (''[Errno 2] No such file or directory: '' @ quoted ''docker''))\<rparr>"

definition probe_two_errors :: probe_env where
  "probe_two_errors =
     \<lparr>frontend_exists = Inr True,
      type_check_stderr =
        Inr ''src/a.ts(1,1): error TS2322: bad\<newline>src/b.ts(2,3): error TS7006: worse\<newline>''\<rparr>"

definition probe_clean :: probe_env where
  "probe_clean = \<lparr>frontend_exists = Inr True, type_check_stderr = Inr ''ok\<newline>''\<rparr>"

definition probe_failed :: "probe_env \<Rightarrow> bool" where
  "probe_failed env =
     (case frontend_exists env of
        Inl e \<Rightarrow> True
      | Inr exists \<Rightarrow>
          if exists then (case type_check_stderr env of Inl e \<Rightarrow> True | Inr stderr \<Rightarrow> False)
          else True)"

definition bad_json :: "pyexn + json" where
  "bad_json = Inl (PyExn ''JSONDecodeError'' ''Expecting value: line 1 column 1 (char 0)'')"

definition numeric_command :: json where
  "numeric_command = JDict [(''tool_name'', JStr ''Bash''), (''tool_input'', JDict [(''command'', JInt 5)])]"

definition list_path :: json where
  "list_path =
     JDict [(''tool_name'', JStr ''Write''),
            (''tool_input'', JDict [(''file_path'', JList [JStr ''frontend/src''])])]"

definition docker_prefix :: string where
  "docker_prefix = ''Hook error: ''"

definition ts_prefix :: string where
  "ts_prefix = ''TypeScript Quality Guard hook error: ''"

definition unknown_kind_event :: json where
  "unknown_kind_event =
     JDict [(''tool_name'', JStr ''NotATool''), (''tool_input'', JDict [(''command'', JStr ''npm run dev'')])]"

definition no_command_event :: json where
  "no_command_event = JDict [(''tool_name'', JStr ''Bash''), (''tool_input'', JDict [])]"

definition no_path_event :: json where
  "no_path_event = JDict [(''tool_name'', JStr ''Edit''), (''tool_input'', JDict [])]"

definition read_event :: json where
  "read_event =
     JDict [(''tool_name'', JStr ''Read''),
            (''tool_input'', JDict [(''file_path'', JStr ''frontend/src/components/Foo.vue'')])]"

text \<open>
  \<open>lacks_field hook_input field\<close>: the event is a mapping without a payload, or with a
  payload mapping that has no item \<open>field\<close>.
\<close>

definition lacks_field :: "json \<Rightarrow> string \<Rightarrow> bool" where
  "lacks_field hook_input field =
     (case hook_input of
        JDict kvs \<Rightarrow>
          (case map_of kvs ''tool_input'' of
             None \<Rightarrow> True
           | Some (JDict payload) \<Rightarrow> map_of payload field = None
           | Some other \<Rightarrow> False)
      | other \<Rightarrow> False)"

definition tool_name_of :: "json \<Rightarrow> json option" where
  "tool_name_of hook_input =
     (case hook_input of
        JDict kvs \<Rightarrow> Some (case map_of kvs ''tool_name'' of None \<Rightarrow> JStr [] | Some v \<Rightarrow> v)
      | other \<Rightarrow> None)"

definition payload_of :: "json \<Rightarrow> json option" where
  "payload_of hook_input =
     (case hook_input of JDict kvs \<Rightarrow> map_of kvs ''tool_input'' | other \<Rightarrow> None)"

text \<open>
  For the proofs about a command with a part that is not fixed, a pattern is run as the
  list of its items: \<open>run ic rs k\<close> is the matcher on the sequence of the items \<open>rs\<close>, and
  \<open>scan_items\<close> the search with it. \<open>word_only w\<close>: every character of \<open>w\<close> is a word
  character, as in a subcommand name. \<open>manage_message w\<close> is the message that the
  subcommand \<open>w\<close> of \<^verbatim>\<open>python manage.py\<close> is blocked with.
\<close>

fun seqs :: "regex list \<Rightarrow> regex" where
  "seqs [] = Lit []"
| "seqs (r # rs) = Seq r (seqs rs)"

definition run :: "bool \<Rightarrow> regex list \<Rightarrow> cont \<Rightarrow> cont" where
  "run ic rs k p xs = rx ic (seqs rs) k p xs"

definition scan_items :: "bool \<Rightarrow> regex list \<Rightarrow> char option \<Rightarrow> string \<Rightarrow> pos option" where
  "scan_items ic rs p xs = scan ic (seqs rs) p xs"

definition word_only :: "string \<Rightarrow> bool" where
  "word_only w = list_all is_word w"



section \<open>Evaluation and shared lemmas\<close>

lemmas rx_eval =
  re_search_def accept_def chr_eq_def to_lower_def is_upper_def is_lower_def is_digit_def
  is_word_def is_space_def at_boundary_def word_before_def word_after_def at_end_def

lemmas catalog =
  blk_npm_def blk_yarn_def blk_pnpm_def blk_vite_def blk_py_runserver_def blk_sh_runserver_def
  blk_py_manage_def blk_sh_manage_def blk_uvicorn_def blk_gunicorn_def blk_daphne_def blk_celery_def
  alw_npm_build_def alw_npm_test_def alw_yarn_build_def alw_vite_build_def alw_py_startapp_def
  alw_sh_startapp_def alw_docker_compose_def alw_docker_compose_v1_def alw_docker_def
  alw_npm_install_def alw_pip_install_def dev_or_serve_def unless_later_def not_startapp_def
  help_servers_def

lemmas triggers =
  trg_test_mock_def trg_vue_component_def trg_typescript_types_def trg_composable_def

lemma any_match_iff: "any_match ps command \<longleftrightarrow> (\<exists>p \<in> set ps. re_search True p command)"
  by (induction ps) auto

lemma docker_main_command:
  "command_event hook_input command \<Longrightarrow> command \<noteq> [] \<Longrightarrow>
   docker_guard_main (Inr hook_input) =
     (case should_block_command command of
        (should_block, reason) \<Rightarrow> if should_block then (2, [reason]) else (0, []))"
  by (auto simp: command_event_def docker_guard_main_def docker_guard_body_def
        split: prod.splits sum.splits)

lemma docker_main_empty:
  "command_event hook_input [] \<Longrightarrow> docker_guard_main (Inr hook_input) = (0, [])"
  by (auto simp: command_event_def docker_guard_main_def docker_guard_body_def split: sum.splits)

lemma docker_main_allowed:
  assumes "should_block_command command = (False, [])" and "command_event hook_input command"
  shows "docker_guard_main (Inr hook_input) = (0, [])"
  using assms by (cases "command = []") (simp_all add: docker_main_command docker_main_empty)

lemma bash_event_command: "command_event (bash_event command) command"
  by (simp add: command_event_def bash_event_def)

lemma write_event_file: "file_event (write_event path) (JStr ''Write'') path"
  by (simp add: file_event_def write_event_def)

section \<open>The command guard: allow-precedence and default-allow\<close>

text \<open>
  C1. A command that matches at least one pattern of \<^verbatim>\<open>ALLOWED_PATTERNS\<close> is classified
  as allowed (\<open>(False, '''')\<close>), whatever block patterns it matches as well, and the hook
  exits with status 0 and prints nothing.
\<close>

theorem allow_precedence:
  assumes "pattern \<in> set ALLOWED_PATTERNS" and "re_search True pattern command"
  shows "should_block_command command = (False, []) \<and>
         (command_event hook_input command \<longrightarrow> docker_guard_main (Inr hook_input) = (0, []))"
proof -
  have "any_match ALLOWED_PATTERNS command"
    using assms by (auto simp: any_match_iff)
  then have "should_block_command command = (False, [])"
    by (simp add: should_block_command_def)
  then show ?thesis
    by (simp add: docker_main_allowed)
qed

lemma compose_allowed: "re_search True alw_docker_compose compose_migrate"
  by (simp add: compose_migrate_def rx_eval catalog)

lemma compose_blocked: "re_search True blk_py_manage compose_migrate"
  by (simp add: compose_migrate_def rx_eval catalog)

text \<open>
  The command of the fourth end-to-end example matches the block pattern for management
  commands and the allow pattern for \<^verbatim>\<open>docker compose\<close>; it is allowed.
\<close>

theorem allow_precedence_witness:
  "alw_docker_compose \<in> set ALLOWED_PATTERNS \<and>
   re_search True alw_docker_compose compose_migrate \<and>
   blk_py_manage \<in> set BLOCKED_PATTERNS \<and>
   re_search True blk_py_manage compose_migrate \<and>
   should_block_command compose_migrate = (False, []) \<and>
   command_event (bash_event compose_migrate) compose_migrate \<and>
   docker_guard_main (Inr (bash_event compose_migrate)) = (0, [])"
proof -
  have a: "alw_docker_compose \<in> set ALLOWED_PATTERNS"
    by (simp add: ALLOWED_PATTERNS_def)
  have b: "blk_py_manage \<in> set BLOCKED_PATTERNS"
    by (simp add: BLOCKED_PATTERNS_def)
  from allow_precedence [OF a compose_allowed, of "bash_event compose_migrate"]
    a b bash_event_command compose_allowed compose_blocked
  show ?thesis by blast
qed

text \<open>
  C9. A command that matches no allow pattern and no block pattern is classified as
  allowed, with no message, and the hook exits with status 0 and prints nothing; so does
  the empty command.
\<close>

theorem default_allow:
  "((\<forall>p \<in> set ALLOWED_PATTERNS. \<not> re_search True p command) \<and>
    (\<forall>p \<in> set BLOCKED_PATTERNS. \<not> re_search True p command) \<longrightarrow>
      should_block_command command = (False, []) \<and>
      (command_event hook_input command \<longrightarrow> docker_guard_main (Inr hook_input) = (0, []))) \<and>
   should_block_command [] = (False, []) \<and>
   (command_event empty_input [] \<longrightarrow> docker_guard_main (Inr empty_input) = (0, []))"
proof -
  have general: "should_block_command command = (False, [])"
    if "\<forall>p \<in> set ALLOWED_PATTERNS. \<not> re_search True p command"
      and "\<forall>p \<in> set BLOCKED_PATTERNS. \<not> re_search True p command"
    using that by (simp add: should_block_command_def any_match_iff)
  have empty: "should_block_command [] = (False, [])"
    by (simp add: should_block_command_def ALLOWED_PATTERNS_def BLOCKED_PATTERNS_def rx_eval catalog)
  show ?thesis
    using general empty docker_main_allowed docker_main_empty by blast
qed

lemma ls_unmatched:
  "\<not> any_match ALLOWED_PATTERNS ''ls -la''"
  "\<not> any_match BLOCKED_PATTERNS ''ls -la''"
  by (simp_all add: ALLOWED_PATTERNS_def BLOCKED_PATTERNS_def rx_eval catalog)

theorem default_allow_witness:
  "\<not> any_match ALLOWED_PATTERNS ''ls -la'' \<and>
   \<not> any_match BLOCKED_PATTERNS ''ls -la'' \<and>
   should_block_command ''ls -la'' = (False, []) \<and>
   command_event (bash_event ''ls -la'') ''ls -la'' \<and>
   docker_guard_main (Inr (bash_event ''ls -la'')) = (0, []) \<and>
   command_event (bash_event []) [] \<and>
   docker_guard_main (Inr (bash_event [])) = (0, [])"
  using default_allow [of "''ls -la''" "bash_event ''ls -la''" "bash_event []"]
    ls_unmatched bash_event_command
  unfolding any_match_iff by blast

section \<open>The TypeScript quality guard: scope of the advisories\<close>

lemma ts_main_outside:
  "file_event hook_input tool_name path \<Longrightarrow> \<not> inside_frontend_src path \<Longrightarrow>
   ts_guard_main env (Inr hook_input) = (0, [])"
  by (auto simp: file_event_def inside_frontend_src_def ts_guard_main_def ts_guard_body_def
        in_frontend_src_def split: sum.splits)

text \<open>
  C10. A write or edit event whose file path contains neither \<^verbatim>\<open>frontend/src\<close> nor
  \<^verbatim>\<open>frontend\src\<close> ends with status 0 and prints nothing, also when the path matches an
  advisory trigger: only a path inside \<^verbatim>\<open>frontend/src\<close> can bring a warning.
\<close>

theorem frontend_scope:
  "file_event hook_input tool_name path \<Longrightarrow> \<not> inside_frontend_src path \<Longrightarrow>
   ts_guard_main env (Inr hook_input) = (0, [])"
  by (rule ts_main_outside)

lemma vue_outside:
  "\<not> inside_frontend_src ''src/components/Foo.vue''"
  "get_pattern_warning ''src/components/Foo.vue'' = Some warning_vue_component"
  by (simp_all add: inside_frontend_src_def starts_with_def get_pattern_warning_def
        PATTERN_WARNINGS_def rx_eval triggers)

theorem frontend_scope_witness:
  "file_event (write_event ''src/components/Foo.vue'') (JStr ''Write'') ''src/components/Foo.vue'' \<and>
   \<not> inside_frontend_src ''src/components/Foo.vue'' \<and>
   get_pattern_warning ''src/components/Foo.vue'' = Some warning_vue_component \<and>
   ts_guard_main no_probe (Inr (write_event ''src/components/Foo.vue'')) = (0, [])"
  using frontend_scope [OF write_event_file vue_outside(1), of no_probe] write_event_file vue_outside
  by blast

section \<open>The TypeScript quality guard: one warning for each event\<close>

lemma first_warning_first:
  "i < length ws \<Longrightarrow> re_search True (trigger_of (ws ! i)) path \<Longrightarrow>
   (\<forall>j < i. \<not> re_search True (trigger_of (ws ! j)) path) \<Longrightarrow>
   first_warning ws path = Some (warning_of (ws ! i))"
proof (induction ws arbitrary: i)
  case Nil
  then show ?case by simp
next
  case (Cons item ws)
  obtain name trigger warning where item: "item = (name, trigger, warning)"
    by (cases item) auto
  show ?case
  proof (cases i)
    case 0
    with Cons.prems item show ?thesis by (simp add: trigger_of_def warning_of_def)
  next
    case (Suc i')
    from Cons.prems(3) Suc have head: "\<not> re_search True trigger path"
      using item by (auto simp: trigger_of_def dest: spec [of _ 0])
    have rest: "\<forall>j < i'. \<not> re_search True (trigger_of (ws ! j)) path"
      using Cons.prems(3) Suc by (auto dest: spec [of _ "Suc j" for j])
    from Cons.prems Suc have "first_warning ws path = Some (warning_of (ws ! i'))"
      by (intro Cons.IH rest) auto
    with head item Suc show ?thesis by simp
  qed
qed

lemma first_warning_mem:
  "first_warning ws path = Some w \<Longrightarrow> w \<in> warning_of ` set ws"
  by (induction ws path rule: first_warning.induct) (auto simp: warning_of_def split: if_splits)

lemma warnings_nonempty:
  "warning_test_mock \<noteq> []" "warning_vue_component \<noteq> []"
  "warning_typescript_types \<noteq> []" "warning_composable \<noteq> []"
  by (simp_all add: warning_test_mock_def warning_vue_component_def
        warning_typescript_types_def warning_composable_def)

lemma pattern_warning_nonempty:
  assumes "get_pattern_warning path = Some w"
  shows "w \<noteq> []"
proof -
  from assms have "w \<in> warning_of ` set PATTERN_WARNINGS"
    unfolding get_pattern_warning_def by (rule first_warning_mem)
  then show ?thesis
    by (auto simp: PATTERN_WARNINGS_def warning_of_def warnings_nonempty [symmetric])
qed

lemma ts_main_warning:
  assumes "file_event hook_input tool_name path" and "write_or_edit tool_name"
    and "inside_frontend_src path" and "get_pattern_warning path = Some w"
  shows "ts_guard_main env (Inr hook_input) = (0, [advise env w])"
proof -
  have "w \<noteq> []" using assms(4) by (rule pattern_warning_nonempty)
  with assms show ?thesis
    by (auto simp: file_event_def write_or_edit_def inside_frontend_src_def ts_guard_main_def
          ts_guard_body_def in_frontend_src_def split: sum.splits)
qed

lemma advise_cases:
  "advise env w = w \<or> (\<exists>n. 0 < n \<and> advise env w = w @ enrichment n)"
  by (auto simp: advise_def split: option.splits)

text \<open>
  C8. For a path that matches one or more advisory triggers, \<^verbatim>\<open>get_pattern_warning\<close> gives
  the warning of the first matching trigger in the order of \<^verbatim>\<open>PATTERN_WARNINGS\<close>, and the
  hook prints exactly one text: that warning, alone or followed by the error-count lines,
  never the warnings of several triggers.
\<close>

theorem single_warning:
  assumes "i < length PATTERN_WARNINGS"
    and "re_search True (trigger_of (PATTERN_WARNINGS ! i)) path"
    and "\<forall>j < i. \<not> re_search True (trigger_of (PATTERN_WARNINGS ! j)) path"
  shows "get_pattern_warning path = Some (warning_of (PATTERN_WARNINGS ! i)) \<and>
         (file_event hook_input tool_name path \<and> write_or_edit tool_name \<and> inside_frontend_src path \<longrightarrow>
            ts_guard_main env (Inr hook_input) = (0, [warning_of (PATTERN_WARNINGS ! i)]) \<or>
            (\<exists>n. 0 < n \<and>
               ts_guard_main env (Inr hook_input) =
                 (0, [warning_of (PATTERN_WARNINGS ! i) @ enrichment n])))"
proof -
  have w: "get_pattern_warning path = Some (warning_of (PATTERN_WARNINGS ! i))"
    unfolding get_pattern_warning_def using assms by (rule first_warning_first)
  show ?thesis
    using w ts_main_warning [OF _ _ _ w, of hook_input tool_name env]
      advise_cases [of env "warning_of (PATTERN_WARNINGS ! i)"]
    by auto
qed

lemma spec_in_composables_facts:
  "re_search True trg_test_mock spec_in_composables"
  "re_search True trg_composable spec_in_composables"
  "inside_frontend_src spec_in_composables"
  by (simp_all add: spec_in_composables_def inside_frontend_src_def starts_with_def rx_eval triggers)

lemma plain_composable_facts:
  "\<not> re_search True trg_test_mock plain_composable"
  "\<not> re_search True trg_vue_component plain_composable"
  "\<not> re_search True trg_typescript_types plain_composable"
  "re_search True trg_composable plain_composable"
  "inside_frontend_src plain_composable"
  by (simp_all add: plain_composable_def inside_frontend_src_def starts_with_def rx_eval triggers)

lemma advise_no_probe: "advise no_probe w = w"
  by (simp add: advise_def check_typescript_error_count_def probe_body_def no_probe_def)

theorem single_warning_witness:
  "(0::nat) < length PATTERN_WARNINGS \<and>
   re_search True (trigger_of (PATTERN_WARNINGS ! 0)) spec_in_composables \<and>
   re_search True (trigger_of (PATTERN_WARNINGS ! 3)) spec_in_composables \<and>
   get_pattern_warning spec_in_composables = Some warning_test_mock \<and>
   file_event (write_event spec_in_composables) (JStr ''Write'') spec_in_composables \<and>
   write_or_edit (JStr ''Write'') \<and>
   inside_frontend_src spec_in_composables \<and>
   ts_guard_main no_probe (Inr (write_event spec_in_composables)) = (0, [warning_test_mock]) \<and>
   (3::nat) < length PATTERN_WARNINGS \<and>
   re_search True (trigger_of (PATTERN_WARNINGS ! 3)) plain_composable \<and>
   \<not> re_search True (trigger_of (PATTERN_WARNINGS ! 0)) plain_composable \<and>
   \<not> re_search True (trigger_of (PATTERN_WARNINGS ! 1)) plain_composable \<and>
   \<not> re_search True (trigger_of (PATTERN_WARNINGS ! 2)) plain_composable \<and>
   get_pattern_warning plain_composable = Some warning_composable"
proof -
  have t: "trigger_of (PATTERN_WARNINGS ! 0) = trg_test_mock"
    "trigger_of (PATTERN_WARNINGS ! 1) = trg_vue_component"
    "trigger_of (PATTERN_WARNINGS ! Suc 0) = trg_vue_component"
    "trigger_of (PATTERN_WARNINGS ! 2) = trg_typescript_types"
    "trigger_of (PATTERN_WARNINGS ! 3) = trg_composable"
    "warning_of (PATTERN_WARNINGS ! 0) = warning_test_mock"
    "warning_of (PATTERN_WARNINGS ! 3) = warning_composable"
    "length PATTERN_WARNINGS = 4"
    by (simp_all add: PATTERN_WARNINGS_def trigger_of_def warning_of_def)
  have first: "get_pattern_warning spec_in_composables = Some warning_test_mock"
    using single_warning [of 0 spec_in_composables] spec_in_composables_facts
    by (simp add: t)
  have earlier: "\<forall>j < 3. \<not> re_search True (trigger_of (PATTERN_WARNINGS ! j)) plain_composable"
  proof (intro allI impI)
    fix j :: nat assume "j < 3"
    then have "j = 0 \<or> j = 1 \<or> j = 2" by arith
    then show "\<not> re_search True (trigger_of (PATTERN_WARNINGS ! j)) plain_composable"
      using plain_composable_facts by (auto simp: t)
  qed
  have last: "get_pattern_warning plain_composable = Some warning_composable"
    using single_warning [of 3 plain_composable] plain_composable_facts earlier
    by (simp add: t)
  have out: "ts_guard_main no_probe (Inr (write_event spec_in_composables)) = (0, [warning_test_mock])"
    using ts_main_warning [OF write_event_file _ spec_in_composables_facts(3) first, of no_probe]
    by (simp add: write_or_edit_def advise_no_probe)
  show ?thesis
    using first last out spec_in_composables_facts plain_composable_facts write_event_file
    by (simp add: t write_or_edit_def)
qed

section \<open>The TypeScript quality guard: the diagnostic probe\<close>

lemma enrichment_nonempty: "enrichment n \<noteq> []"
  by (simp add: enrichment_def)

lemma advise_enriched:
  "advise env w \<noteq> w \<longleftrightarrow> (\<exists>n. check_typescript_error_count env = Some n \<and> 0 < n)"
  by (auto simp: advise_def enrichment_nonempty split: option.splits)

lemma probe_failed_none: "probe_failed env \<Longrightarrow> check_typescript_error_count env = None"
  by (auto simp: probe_failed_def check_typescript_error_count_def probe_body_def
        split: sum.splits if_splits)

text \<open>
  C7. A probe that fails (no \<^verbatim>\<open>frontend\<close> directory, an exception of the subprocess, the
  expired timeout) gives \<^verbatim>\<open>None\<close> and raises nothing; the warning of a matching path is
  printed all the same, with status 0 and without the error-count lines. The lines are
  appended exactly when the probe gives a count greater than zero.
\<close>

theorem probe_robustness:
  "(probe_failed env \<longrightarrow> check_typescript_error_count env = None) \<and>
   (file_event hook_input tool_name path \<and> write_or_edit tool_name \<and> inside_frontend_src path \<and>
    get_pattern_warning path = Some w \<longrightarrow>
      ts_guard_main env (Inr hook_input) =
        (0, [case check_typescript_error_count env of
               None \<Rightarrow> w
             | Some n \<Rightarrow> if 0 < n then w @ enrichment n else w]) \<and>
      (snd (ts_guard_main env (Inr hook_input)) \<noteq> [w] \<longleftrightarrow>
         (\<exists>n. check_typescript_error_count env = Some n \<and> 0 < n)))"
proof -
  have "ts_guard_main env (Inr hook_input) = (0, [advise env w])"
    if "file_event hook_input tool_name path" "write_or_edit tool_name" "inside_frontend_src path"
      "get_pattern_warning path = Some w"
    using that by (rule ts_main_warning)
  then show ?thesis
    using probe_failed_none [of env] advise_enriched [of env w]
    by (auto simp: advise_def split: option.splits)
qed

lemma foo_vue_facts:
  "inside_frontend_src foo_vue"
  "get_pattern_warning foo_vue = Some warning_vue_component"
  by (simp_all add: foo_vue_def inside_frontend_src_def starts_with_def get_pattern_warning_def
        PATTERN_WARNINGS_def rx_eval triggers)

lemma probe_values:
  "probe_failed probe_timeout"
  "probe_failed no_probe"
  "check_typescript_error_count probe_two_errors = Some 2"
  "check_typescript_error_count probe_clean = Some 0"
  by (simp_all add: probe_failed_def probe_timeout_def no_probe_def probe_two_errors_def
        probe_clean_def check_typescript_error_count_def probe_body_def error_marker_def rx_eval)

theorem probe_robustness_witness:
  "probe_failed probe_timeout \<and>
   check_typescript_error_count probe_timeout = None \<and>
   file_event (write_event foo_vue) (JStr ''Write'') foo_vue \<and>
   write_or_edit (JStr ''Write'') \<and>
   inside_frontend_src foo_vue \<and>
   get_pattern_warning foo_vue = Some warning_vue_component \<and>
   ts_guard_main probe_timeout (Inr (write_event foo_vue)) = (0, [warning_vue_component]) \<and>
   ts_guard_main no_probe (Inr (write_event foo_vue)) = (0, [warning_vue_component]) \<and>
   ts_guard_main probe_clean (Inr (write_event foo_vue)) = (0, [warning_vue_component]) \<and>
   ts_guard_main probe_two_errors (Inr (write_event foo_vue)) =
     (0, [warning_vue_component @ enrichment 2])"
proof -
  have w: "write_or_edit (JStr ''Write'')"
    by (simp add: write_or_edit_def)
  note ev = write_event_file [of foo_vue]
  have none: "check_typescript_error_count probe_timeout = None"
    "check_typescript_error_count no_probe = None"
    using probe_robustness [of probe_timeout] probe_robustness [of no_probe] probe_values
    by blast+
  have out: "ts_guard_main env (Inr (write_event foo_vue)) =
        (0, [case check_typescript_error_count env of
               None \<Rightarrow> warning_vue_component
             | Some n \<Rightarrow> if 0 < n then warning_vue_component @ enrichment n
                 else warning_vue_component])" for env
    using probe_robustness [of env "write_event foo_vue" "JStr ''Write''" foo_vue warning_vue_component]
      ev w foo_vue_facts by blast
  show ?thesis
    using out [of probe_timeout] out [of no_probe] out [of probe_clean] out [of probe_two_errors]
      none probe_values ev w foo_vue_facts
    by simp
qed

section \<open>Fail-open on an internal fault\<close>

lemma help_not_prefixed: "\<not> starts_with docker_prefix (get_help_message command)"
  by (simp add: get_help_message_def starts_with_def docker_prefix_def fallback_message_def
        help_npm_dev_def help_django_runserver_def help_django_management_def help_uvicorn_def
        help_celery_worker_def)

lemma warning_not_prefixed:
  assumes "get_pattern_warning path = Some w"
  shows "\<not> starts_with ts_prefix (advise env w)"
proof -
  from assms have "w \<in> warning_of ` set PATTERN_WARNINGS"
    unfolding get_pattern_warning_def by (rule first_warning_mem)
  then have "hd w = CHR 0x0A \<and> w \<noteq> []"
    by (auto simp: PATTERN_WARNINGS_def warning_of_def warning_test_mock_def
          warning_vue_component_def warning_typescript_types_def warning_composable_def)
  then obtain rest where "w = CHR 0x0A # rest"
    by (cases w) auto
  then show ?thesis
    using advise_cases [of env w] by (auto simp: starts_with_def ts_prefix_def)
qed

lemma docker_blocks_only_on_match:
  "fst (docker_guard_main stdin) = 2 \<Longrightarrow>
   \<exists>hook_input command. stdin = Inr hook_input \<and> command_event hook_input command \<and>
      docker_guard_main stdin = (2, [get_help_message command])"
  by (auto simp: docker_guard_main_def docker_guard_body_def command_event_def
        should_block_command_def split: sum.splits json.splits if_splits prod.splits)

lemma ts_never_blocks: "fst (ts_guard_main env stdin) = 0"
  by (auto simp: ts_guard_main_def ts_guard_body_def split: sum.splits json.splits option.splits)

text \<open>
  An exception inside the probe never reaches the handler of \<^verbatim>\<open>main\<close>: the expired
  timeout of the subprocess leaves the advisory text as the only output, and no line
  with the prefix of the hook.
\<close>

theorem probe_fault_no_diagnostic:
  "probe_body probe_timeout = Inl (PyExn ''TimeoutExpired'' ''Command timed out after 30 seconds'') \<and>
   ts_guard_main probe_timeout (Inr (write_event foo_vue)) = (0, [warning_vue_component]) \<and>
   \<not> starts_with ts_prefix warning_vue_component"
proof -
  have a: "probe_body probe_timeout =
      Inl (PyExn ''TimeoutExpired'' ''Command timed out after 30 seconds'')"
    by (simp add: probe_body_def probe_timeout_def)
  then have "advise probe_timeout warning_vue_component = warning_vue_component"
    by (simp add: advise_def check_typescript_error_count_def)
  then have b: "ts_guard_main probe_timeout (Inr (write_event foo_vue)) = (0, [warning_vue_component])"
    using ts_main_warning [OF write_event_file _ foo_vue_facts, of probe_timeout]
    by (simp add: write_or_edit_def)
  have c: "\<not> starts_with ts_prefix warning_vue_component"
    by (simp add: starts_with_def ts_prefix_def warning_vue_component_def)
  from a b c show ?thesis by simp
qed

text \<open>
  C4 (as amended). Whenever a step of the guarded body of \<^verbatim>\<open>main\<close> raises (the parse of
  the input, a lookup on a value that is no mapping, a search in a value that is no
  string), the handler at the end of \<^verbatim>\<open>main\<close> prints one line, the prefix of the hook
  followed by the message of the exception, and the hook exits with status 0. Status 2
  comes only from a command that was classified as blocked; the TypeScript guard never
  gives another status than 0. No help message and no advisory text starts with the
  prefix of its hook. An exception inside the probe is caught by the handler of the
  probe: the advisory text is printed without a diagnostic line, with status 0.
\<close>

theorem fail_open:
  "(docker_guard_body docker_in = Inl docker_exn \<longrightarrow>
      docker_guard_main docker_in = (0, [docker_prefix @ str_exn docker_exn])) \<and>
   (ts_guard_body env ts_in = Inl ts_exn \<longrightarrow>
      ts_guard_main env ts_in = (0, [ts_prefix @ str_exn ts_exn])) \<and>
   (fst (docker_guard_main blocked_in) = 2 \<longrightarrow>
      (\<exists>hook_input command. blocked_in = Inr hook_input \<and> command_event hook_input command \<and>
         docker_guard_body blocked_in = Inr (2, [get_help_message command]))) \<and>
   fst (ts_guard_main env ts_in) = 0 \<and>
   \<not> starts_with docker_prefix (get_help_message command) \<and>
   (get_pattern_warning path = Some w \<longrightarrow> \<not> starts_with ts_prefix (advise env w)) \<and>
   (probe_body probe = Inl probe_exn \<and> file_event file_in tool_name file_path \<and>
    write_or_edit tool_name \<and> inside_frontend_src file_path \<and>
    get_pattern_warning file_path = Some warning \<longrightarrow>
      ts_guard_main probe (Inr file_in) = (0, [warning]))"
proof -
  have a: "docker_guard_main docker_in = (0, [docker_prefix @ str_exn docker_exn])"
    if "docker_guard_body docker_in = Inl docker_exn"
    using that by (simp add: docker_guard_main_def docker_prefix_def)
  have b: "ts_guard_main env ts_in = (0, [ts_prefix @ str_exn ts_exn])"
    if "ts_guard_body env ts_in = Inl ts_exn"
    using that by (simp add: ts_guard_main_def ts_prefix_def)
  have c: "\<exists>hook_input command. blocked_in = Inr hook_input \<and> command_event hook_input command \<and>
         docker_guard_body blocked_in = Inr (2, [get_help_message command])"
    if "fst (docker_guard_main blocked_in) = 2"
    using docker_blocks_only_on_match [OF that]
    by (auto simp: docker_guard_main_def split: sum.splits)
  have d: "ts_guard_main probe (Inr file_in) = (0, [warning])"
    if "probe_body probe = Inl probe_exn" "file_event file_in tool_name file_path"
      "write_or_edit tool_name" "inside_frontend_src file_path"
      "get_pattern_warning file_path = Some warning"
  proof -
    from that(1) have "advise probe warning = warning"
      by (simp add: advise_def check_typescript_error_count_def)
    with ts_main_warning [OF that(2-5), of probe] show ?thesis by simp
  qed
  show ?thesis
    using a b c d ts_never_blocks help_not_prefixed warning_not_prefixed by blast
qed

lemma raised_examples:
  "docker_guard_body bad_json = Inl (PyExn ''JSONDecodeError'' ''Expecting value: line 1 column 1 (char 0)'')"
  "docker_guard_body (Inr numeric_command) = Inl (not_a_string (JInt 5))"
  "docker_guard_body (Inr (JList [])) =
     Inl (PyExn ''AttributeError'' (quoted ''list'' @ '' object has no attribute '' @ quoted ''get''))"
  "ts_guard_body no_probe (Inr list_path) = Inl (not_a_string (JList [JStr ''frontend/src'']))"
  by (simp_all add: bad_json_def numeric_command_def list_path_def docker_guard_body_def
        ts_guard_body_def in_frontend_src_def)

lemma npm_run_dev_blocked:
  "should_block_command ''npm run dev'' = (True, HELP_MESSAGES npm_dev)"
  by (simp add: should_block_command_def get_help_message_def ALLOWED_PATTERNS_def
        BLOCKED_PATTERNS_def rx_eval catalog)

lemma npm_run_dev_main:
  "docker_guard_main (Inr (bash_event ''npm run dev'')) = (2, [HELP_MESSAGES npm_dev])"
  using docker_main_command [OF bash_event_command, of "''npm run dev''"]
  by (simp add: npm_run_dev_blocked)

lemma probe_missing_docker:
  "probe_body probe_no_docker =
     Inl (PyExn ''FileNotFoundError'' (''[Errno 2] No such file or directory: '' @ quoted ''docker''))"
  by (simp add: probe_body_def probe_no_docker_def)

theorem fail_open_witness:
  "docker_guard_body bad_json =
     Inl (PyExn ''JSONDecodeError'' ''Expecting value: line 1 column 1 (char 0)'') \<and>
   docker_guard_main bad_json =
     (0, [''Hook error: Expecting value: line 1 column 1 (char 0)'']) \<and>
   docker_guard_body (Inr numeric_command) = Inl (not_a_string (JInt 5)) \<and>
   docker_guard_main (Inr numeric_command) =
     (0, [docker_prefix @ str_exn (not_a_string (JInt 5))]) \<and>
   ts_guard_body no_probe (Inr list_path) = Inl (not_a_string (JList [JStr ''frontend/src''])) \<and>
   ts_guard_main no_probe (Inr list_path) =
     (0, [ts_prefix @ str_exn (not_a_string (JList [JStr ''frontend/src'']))]) \<and>
   fst (docker_guard_main (Inr (bash_event ''npm run dev''))) = 2 \<and>
   docker_guard_body (Inr (bash_event ''npm run dev'')) = Inr (2, [HELP_MESSAGES npm_dev]) \<and>
   get_pattern_warning foo_vue = Some warning_vue_component \<and>
   \<not> starts_with ts_prefix (advise no_probe warning_vue_component) \<and>
   probe_body probe_no_docker =
     Inl (PyExn ''FileNotFoundError'' (''[Errno 2] No such file or directory: '' @ quoted ''docker'')) \<and>
   file_event (write_event foo_vue) (JStr ''Write'') foo_vue \<and>
   write_or_edit (JStr ''Write'') \<and>
   inside_frontend_src foo_vue \<and>
   ts_guard_main probe_no_docker (Inr (write_event foo_vue)) = (0, [warning_vue_component])"
proof -
  note w = foo_vue_facts(2)
  have we: "write_or_edit (JStr ''Write'')"
    by (simp add: write_or_edit_def)
  have two: "fst (docker_guard_main (Inr (bash_event ''npm run dev''))) = 2"
    by (simp add: npm_run_dev_main)
  have body: "docker_guard_body (Inr (bash_event ''npm run dev'')) = Inr (2, [HELP_MESSAGES npm_dev])"
    using npm_run_dev_main by (simp add: docker_guard_main_def split: sum.splits)
  have json: "docker_guard_main bad_json =
     (0, [''Hook error: Expecting value: line 1 column 1 (char 0)''])"
    using fail_open [where docker_in = bad_json
        and docker_exn = "PyExn ''JSONDecodeError'' ''Expecting value: line 1 column 1 (char 0)''"]
      raised_examples(1)
    by (simp add: docker_prefix_def)
  have num: "docker_guard_main (Inr numeric_command) =
     (0, [docker_prefix @ str_exn (not_a_string (JInt 5))])"
    using fail_open [where docker_in = "Inr numeric_command" and docker_exn = "not_a_string (JInt 5)"]
      raised_examples(2)
    by simp
  have lst: "ts_guard_main no_probe (Inr list_path) =
     (0, [ts_prefix @ str_exn (not_a_string (JList [JStr ''frontend/src'']))])"
    using fail_open [where env = no_probe and ts_in = "Inr list_path"
        and ts_exn = "not_a_string (JList [JStr ''frontend/src''])"]
      raised_examples(4)
    by simp
  have pre: "\<not> starts_with ts_prefix (advise no_probe warning_vue_component)"
    using fail_open [where env = no_probe and path = foo_vue and w = warning_vue_component] w
    by simp
  have probe: "ts_guard_main probe_no_docker (Inr (write_event foo_vue)) = (0, [warning_vue_component])"
    using fail_open [where probe = probe_no_docker and file_in = "write_event foo_vue"
        and tool_name = "JStr ''Write''" and file_path = foo_vue and warning = warning_vue_component]
      probe_missing_docker write_event_file [of foo_vue] we foo_vue_facts
    by simp
  show ?thesis
    using raised_examples w two body json num lst pre probe probe_missing_docker
      write_event_file [of foo_vue] we foo_vue_facts(1)
    by simp
qed

section \<open>Malformed events and the message of a blocked command\<close>

text \<open>
  The command guard never looks at \<^verbatim>\<open>tool_name\<close>: an event of a kind it does not know,
  carrying a command, is classified and blocked like any other.
\<close>

theorem unknown_kind_blocked:
  "tool_name_of unknown_kind_event = Some (JStr ''NotATool'') \<and>
   docker_guard_main (Inr unknown_kind_event) = (2, [HELP_MESSAGES npm_dev])"
proof -
  have "command_event unknown_kind_event ''npm run dev''"
    by (simp add: command_event_def unknown_kind_event_def)
  then show ?thesis
    using docker_main_command [of unknown_kind_event "''npm run dev''"]
    by (simp add: npm_run_dev_blocked tool_name_of_def unknown_kind_event_def)
qed

lemma lacks_field_cases:
  assumes "lacks_field hook_input field"
  obtains (no_payload) kvs where "hook_input = JDict kvs" "map_of kvs ''tool_input'' = None"
  | (no_field) kvs payload where "hook_input = JDict kvs"
      "map_of kvs ''tool_input'' = Some (JDict payload)" "map_of payload field = None"
proof (cases hook_input)
  case (JDict kvs)
  show ?thesis
  proof (cases "map_of kvs ''tool_input''")
    case None
    with JDict no_payload show ?thesis by blast
  next
    case (Some v)
    with assms JDict obtain payload where "v = JDict payload" "map_of payload field = None"
      by (cases v) (auto simp: lacks_field_def)
    with JDict Some no_field show ?thesis by blast
  qed
qed (use assms in \<open>auto simp: lacks_field_def\<close>)

lemma docker_lacks_command:
  assumes "lacks_field hook_input ''command''"
  shows "docker_guard_main (Inr hook_input) = (0, [])"
  using assms
  by (cases rule: lacks_field_cases) (simp_all add: docker_guard_main_def docker_guard_body_def)

lemma ts_lacks_path:
  assumes "lacks_field hook_input ''file_path''"
  shows "ts_guard_main env (Inr hook_input) = (0, [])"
  using assms
  by (cases rule: lacks_field_cases)
    (auto simp: ts_guard_main_def ts_guard_body_def split: option.splits)

lemma ts_other_tool:
  "tool_name_of hook_input = Some tool_name \<Longrightarrow> \<not> write_or_edit tool_name \<Longrightarrow>
   ts_guard_main env (Inr hook_input) = (0, [])"
  by (auto simp: tool_name_of_def write_or_edit_def ts_guard_main_def ts_guard_body_def
        split: json.splits option.splits)

lemma docker_ignores_tool_name:
  "payload_of hook_input = payload_of hook_input' \<Longrightarrow> payload_of hook_input \<noteq> None \<Longrightarrow>
   docker_guard_main (Inr hook_input) = docker_guard_main (Inr hook_input')"
  by (auto simp: payload_of_def docker_guard_main_def docker_guard_body_def
        split: json.splits option.splits)

text \<open>
  C5 (as amended). An event without the payload field of its hook (\<^verbatim>\<open>command\<close> for the
  command guard, \<^verbatim>\<open>file_path\<close> for the TypeScript guard) ends with status 0 and no output,
  and so does, in the TypeScript guard, an event whose tool name is neither \<^verbatim>\<open>Write\<close> nor
  \<^verbatim>\<open>Edit\<close>. The command guard decides by the payload alone: two events with the same
  payload get the same outcome, whatever their tool names.
\<close>

theorem malformed_event:
  "(lacks_field hook_input ''command'' \<longrightarrow> docker_guard_main (Inr hook_input) = (0, [])) \<and>
   (lacks_field hook_input ''file_path'' \<longrightarrow> ts_guard_main env (Inr hook_input) = (0, [])) \<and>
   (tool_name_of other_input = Some tool_name \<and> \<not> write_or_edit tool_name \<longrightarrow>
      ts_guard_main env (Inr other_input) = (0, [])) \<and>
   (payload_of first_input = payload_of second_input \<and> payload_of first_input \<noteq> None \<longrightarrow>
      docker_guard_main (Inr first_input) = docker_guard_main (Inr second_input))"
  using docker_lacks_command ts_lacks_path ts_other_tool docker_ignores_tool_name by blast

theorem malformed_event_witness:
  "lacks_field no_command_event ''command'' \<and>
   docker_guard_main (Inr no_command_event) = (0, []) \<and>
   lacks_field no_path_event ''file_path'' \<and>
   ts_guard_main no_probe (Inr no_path_event) = (0, []) \<and>
   tool_name_of read_event = Some (JStr ''Read'') \<and>
   \<not> write_or_edit (JStr ''Read'') \<and>
   ts_guard_main no_probe (Inr read_event) = (0, []) \<and>
   payload_of unknown_kind_event = payload_of (bash_event ''npm run dev'') \<and>
   payload_of unknown_kind_event \<noteq> None \<and>
   docker_guard_main (Inr unknown_kind_event) = docker_guard_main (Inr (bash_event ''npm run dev''))"
proof -
  have a: "lacks_field no_command_event ''command''" "lacks_field no_path_event ''file_path''"
    "tool_name_of read_event = Some (JStr ''Read'')" "\<not> write_or_edit (JStr ''Read'')"
    "payload_of unknown_kind_event = payload_of (bash_event ''npm run dev'')"
    "payload_of unknown_kind_event \<noteq> None"
    by (simp_all add: lacks_field_def no_command_event_def no_path_event_def tool_name_of_def
          read_event_def write_or_edit_def payload_of_def unknown_kind_event_def bash_event_def)
  show ?thesis
    using a malformed_event [where hook_input = no_command_event and env = no_probe]
      malformed_event [where hook_input = no_path_event and env = no_probe
        and other_input = read_event and tool_name = "JStr ''Read''"
        and first_input = unknown_kind_event and second_input = "bash_event ''npm run dev''"]
    by blast
qed

text \<open>
  C2. \<^verbatim>\<open>yarn dev\<close> matches no allow pattern and the second block pattern, a frontend dev
  server; \<^verbatim>\<open>get_help_message\<close> has no branch for it and returns the generic text, not
  the help message of the frontend dev servers. The same holds for \<^verbatim>\<open>pnpm serve\<close>.
\<close>

theorem yarn_dev_fallback:
  "\<not> any_match ALLOWED_PATTERNS ''yarn dev'' \<and>
   re_search True blk_yarn ''yarn dev'' \<and>
   should_block_command ''yarn dev'' = (True, fallback_message) \<and>
   docker_guard_main (Inr (bash_event ''yarn dev'')) = (2, [fallback_message]) \<and>
   should_block_command ''pnpm serve'' = (True, fallback_message) \<and>
   fallback_message \<noteq> HELP_MESSAGES npm_dev"
proof -
  have a: "\<not> any_match ALLOWED_PATTERNS ''yarn dev''" "re_search True blk_yarn ''yarn dev''"
    by (simp_all add: ALLOWED_PATTERNS_def rx_eval catalog)
  have b: "should_block_command ''yarn dev'' = (True, fallback_message)"
    "should_block_command ''pnpm serve'' = (True, fallback_message)"
    by (simp_all add: should_block_command_def get_help_message_def ALLOWED_PATTERNS_def
          BLOCKED_PATTERNS_def rx_eval catalog)
  have c: "docker_guard_main (Inr (bash_event ''yarn dev'')) = (2, [fallback_message])"
    using docker_main_command [OF bash_event_command, of "''yarn dev''"] b by simp
  have d: "fallback_message \<noteq> HELP_MESSAGES npm_dev"
    by (simp add: fallback_message_def help_npm_dev_def)
  from a b c d show ?thesis by simp
qed

text \<open>
  C6. \<^verbatim>\<open>NPM RUN DEV\<close> is blocked like \<^verbatim>\<open>npm run dev\<close>, since the classifier searches with
  \<^verbatim>\<open>re.IGNORECASE\<close>; \<^verbatim>\<open>get_help_message\<close> searches without it, finds nothing and returns
  the generic text where the lower-case command gets the help message.
\<close>

theorem upper_case_fallback:
  "map to_upper ''npm run dev'' = ''NPM RUN DEV'' \<and>
   should_block_command ''npm run dev'' = (True, HELP_MESSAGES npm_dev) \<and>
   should_block_command ''NPM RUN DEV'' = (True, fallback_message) \<and>
   re_search True blk_npm ''NPM RUN DEV'' \<and>
   \<not> re_search False blk_npm ''NPM RUN DEV'' \<and>
   HELP_MESSAGES npm_dev \<noteq> fallback_message"
proof -
  have a: "map to_upper ''npm run dev'' = ''NPM RUN DEV''"
    by (simp add: to_upper_def is_lower_def char_of_def bit_0)
  have b: "should_block_command ''NPM RUN DEV'' = (True, fallback_message)"
    by (simp add: should_block_command_def get_help_message_def ALLOWED_PATTERNS_def
          BLOCKED_PATTERNS_def rx_eval catalog char_of_def bit_0)
  have c: "re_search True blk_npm ''NPM RUN DEV''" "\<not> re_search False blk_npm ''NPM RUN DEV''"
    by (simp_all add: rx_eval catalog char_of_def bit_0)
  have d: "HELP_MESSAGES npm_dev \<noteq> fallback_message"
    by (simp add: fallback_message_def help_npm_dev_def)
  from a b c d npm_run_dev_blocked show ?thesis by simp
qed

section \<open>The command guard: the exemption of startapp\<close>

lemma rx_Seq_fun: "rx ic (Seq a b) k = rx ic a (rx ic b k)"
  by (intro ext) simp

lemma rx_Lit_Nil_fun: "rx ic (Lit []) k = k"
  by (intro ext) simp

lemma rx_seqs_append_fun: "rx ic (seqs (as @ bs)) k = rx ic (seqs as) (rx ic (seqs bs) k)"
  by (induction as arbitrary: k) (simp_all add: rx_Seq_fun rx_Lit_Nil_fun)

lemma rx_cat_fun: "rx ic (cat rs) k = rx ic (seqs rs) k"
  by (induction rs arbitrary: k rule: cat.induct) (simp_all add: rx_Seq_fun rx_Lit_Nil_fun)



lemma run_Nil: "run ic [] k p xs = k p xs"
  by (simp add: run_def)

lemma run_WordB: "run ic (WordB # rs) k p xs = (if at_boundary p xs then run ic rs k p xs else None)"
  by (simp add: run_def)

lemma run_EndA: "run ic (EndA # rs) k p xs = (if at_end xs then run ic rs k p xs else None)"
  by (simp add: run_def)

lemma run_Lit_Nil: "run ic (Lit [] # rs) k p xs = run ic rs k p xs"
  by (simp add: run_def)

lemma run_Lit_end: "run ic (Lit (c # cs) # rs) k p [] = None"
  by (simp add: run_def)

lemma run_Lit_Cons:
  "run ic (Lit (c # cs) # rs) k p (x # xs) =
     (if chr_eq ic c x then run ic (Lit cs # rs) k (Some x) xs else None)"
  by (simp add: run_def)

lemma run_Plus_end: "run ic (Plus C # rs) k p [] = None"
  by (simp add: run_def)

lemma run_Plus_Cons:
  "run ic (Plus C # rs) k p (x # xs) =
     (if in_class C x then run ic (Star C # rs) k (Some x) xs else None)"
  by (simp add: run_def)

lemma run_Star_end: "run ic (Star C # rs) k p [] = run ic rs k p []"
  by (simp add: run_def)

lemma run_Star_Cons:
  "run ic (Star C # rs) k p (x # xs) =
     (if in_class C x
      then (case run ic (Star C # rs) k (Some x) xs of
              Some e \<Rightarrow> Some e
            | None \<Rightarrow> run ic rs k p (x # xs))
      else run ic rs k p (x # xs))"
  by (simp add: run_def split: option.splits)

lemma run_Alt:
  "run ic (Alt a b # rs) k p xs =
     (case run ic (a # rs) k p xs of Some e \<Rightarrow> Some e | None \<Rightarrow> run ic (b # rs) k p xs)"
  by (simp add: run_def split: option.splits)

lemma run_NotAhead:
  "run ic (NotAhead a # rs) k p xs =
     (case run ic [a] accept p xs of Some e \<Rightarrow> None | None \<Rightarrow> run ic rs k p xs)"
  by (simp add: run_def rx_Lit_Nil_fun split: option.splits)

lemma run_Seq: "run ic (Seq a b # rs) k p xs = run ic (a # b # rs) k p xs"
  by (simp add: run_def rx_Seq_fun)

lemma run_cat: "run ic (cat as # rs) k p xs = run ic (as @ rs) k p xs"
  by (simp add: run_def rx_cat_fun rx_seqs_append_fun)

lemma scan_items_Nil: "scan_items ic rs p [] = run ic rs accept p []"
  by (simp add: scan_items_def run_def)

lemma scan_items_Cons:
  "scan_items ic rs p (x # xs) =
     (case run ic rs accept p (x # xs) of
        Some e \<Rightarrow> Some e
      | None \<Rightarrow> scan_items ic rs (Some x) xs)"
  by (simp add: scan_items_def run_def split: option.splits)

lemmas run_rules =
  run_Nil run_WordB run_EndA run_Lit_Nil run_Lit_end run_Lit_Cons run_Plus_end run_Plus_Cons
  run_Star_end run_Star_Cons run_Alt run_NotAhead run_Seq run_cat scan_items_Nil scan_items_Cons







lemma word_only_simps: "word_only [] = True" "word_only (x # xs) = (is_word x \<and> word_only xs)"
  by (simp_all add: word_only_def)










lemma star_accept: "run ic [Star C] accept p xs \<noteq> None"
  by (induction xs arbitrary: p) (auto simp: run_rules accept_def split: option.splits)

lemma plus_word_accept: "word_only w \<Longrightarrow> w \<noteq> [] \<Longrightarrow> run ic [Plus WordChar] accept p w \<noteq> None"
  by (cases w) (simp_all add: run_rules word_only_simps star_accept)


































text \<open>
  The two patterns for \<^verbatim>\<open>./manage.py\<close> start with \<^verbatim>\<open>\b\.\<close>: they need a word character
  before the dot, so at the start of a command, or after a space, they match nothing.
\<close>

lemma sh_manage_unmatched:
  "should_block_command ''./manage.py migrate'' = (False, [])"
  "\<not> re_search True blk_sh_manage ''./manage.py migrate''"
  "\<not> re_search True alw_sh_startapp ''./manage.py startapp blog''"
  by (simp_all add: should_block_command_def ALLOWED_PATTERNS_def BLOCKED_PATTERNS_def
        rx_eval catalog)

end
